theory Spec2Isabelle
  imports Complex_Main "HOL-Library.Multiset"
begin

section \<open>Common data: JSON values, HTTP requests, API outcomes\<close>

text \<open>
  The frontend talks to the backend in JSON over HTTP.  A JSON object is an association
  list in insertion order; numbers are rationals (every finite JSON number is one).
\<close>

datatype json =
    JNull
  | JBool bool
  | JNum rat
  | JStr string
  | JArr "json list"
  | JObj "(string \<times> json) list"

text \<open>
  An HTTP request as the pages build it: method, URL without the query string, the query
  parameters (the entries of a \<open>URLSearchParams\<close>), the headers written at the call
  site, and the body.
\<close>

record request =
  http_method :: string
  url :: string
  params :: "(string \<times> string) list"
  headers :: "(string \<times> string) list"
  body :: "json option"

text \<open>
  A rejected promise (network failure, non-2xx answer of the axios instance, a thrown
  \<open>Error\<close>) is the left summand; a fulfilled one the right summand.
\<close>

datatype api_error = NetworkError | HttpError nat | Thrown string

type_synonym 'a promise = "api_error + 'a"

text \<open>\<open>localStorage\<close>: \<open>getItem\<close> answers \<open>null\<close> for an absent key.\<close>

type_synonym storage = "string \<rightharpoonup> string"

text \<open>
  \<open>Number.prototype.toString\<close> on integers, used by template literals.  The digits are
  those JavaScript writes for magnitudes below \<open>10^21\<close>, which covers row ids and page
  numbers; from there on JavaScript switches to exponent notation.
\<close>

definition digit_char :: "nat \<Rightarrow> char" where
  "digit_char d = ''0123456789'' ! d"

fun nat_toString :: "nat \<Rightarrow> string" where
  "nat_toString n = (if n < 10 then [digit_char n] else nat_toString (n div 10) @ [digit_char (n mod 10)])"

declare nat_toString.simps [simp del]

definition toString :: "int \<Rightarrow> string" where
  "toString i = (if i < 0 then CHR ''-'' # nat_toString (nat (- i)) else nat_toString (nat i))"

text \<open>A template literal \<open>`${x}`\<close> over a value that may be \<open>null\<close>.\<close>

definition template_nullable :: "string option \<Rightarrow> string" where
  "template_nullable v = (case v of None \<Rightarrow> ''null'' | Some s \<Rightarrow> s)"


section \<open>Authentication: \<open>AuthContext.tsx\<close> and \<open>ProtectedRoute\<close> of \<open>App.tsx\<close>\<close>

text \<open>The \<open>User\<close> interface of \<open>types/index.ts\<close>.\<close>

record User =
  user_id :: int
  email :: string
  full_name :: string
  role :: string
  is_active :: bool

text \<open>
  The state the \<open>AuthProvider\<close> owns: its two \<open>useState\<close> cells and the
  \<open>localStorage\<close> it writes.  Initially \<open>user\<close> is \<open>null\<close> and \<open>loading\<close>
  is \<open>true\<close>.
\<close>

record auth_state =
  store :: storage
  user :: "User option"
  loading :: bool

definition AuthProvider_init :: "storage \<Rightarrow> auth_state" where
  "AuthProvider_init st = \<lparr>store = st, user = None, loading = True\<rparr>"

text \<open>The three handlers chained on \<open>api.get('/api/v1/auth/me')\<close>.\<close>

definition me_then :: "User \<Rightarrow> auth_state \<Rightarrow> auth_state" where
  "me_then data s = s\<lparr>user := Some data\<rparr>"

definition me_catch :: "auth_state \<Rightarrow> auth_state" where
  "me_catch s = s\<lparr>store := (store s)(''token'' := None)\<rparr>"

definition me_finally :: "auth_state \<Rightarrow> auth_state" where
  "me_finally s = s\<lparr>loading := False\<rparr>"

text \<open>\<open>if (token)\<close>: \<open>null\<close> and the empty string are falsy.\<close>

definition truthy :: "string option \<Rightarrow> bool" where
  "truthy v = (case v of Some s \<Rightarrow> s \<noteq> [] | None \<Rightarrow> False)"

text \<open>
  The mount effect, run to completion.  \<open>me\<close> is the settled outcome of the
  verification call \<open>GET /api/v1/auth/me\<close>, which is issued only when the stored token is
  truthy.
\<close>

definition AuthProvider_effect :: "User promise \<Rightarrow> auth_state \<Rightarrow> auth_state" where
  "AuthProvider_effect me s =
     (if truthy (store s ''token'') then
        me_finally (case me of Inr data \<Rightarrow> me_then data s | Inl e \<Rightarrow> me_catch s)
      else s\<lparr>loading := False\<rparr>)"

definition AuthProvider_start :: "storage \<Rightarrow> User promise \<Rightarrow> auth_state" where
  "AuthProvider_start st me = AuthProvider_effect me (AuthProvider_init st)"

text \<open>What \<open>ProtectedRoute\<close> returns.\<close>

datatype 'c rendered = Spinner | Navigate string bool | Children 'c

definition ProtectedRoute :: "'u option \<Rightarrow> bool \<Rightarrow> 'c \<Rightarrow> 'c rendered" where
  "ProtectedRoute usr ld children =
     (if ld then Spinner
      else if usr = None then Navigate ''/login'' True
      else Children children)"


section \<open>Task pages: \<open>Tasks.tsx\<close> and \<open>TaskManagement\<close>\<close>

text \<open>The fields of a task row that the status controls read.\<close>

record Task =
  task_id :: int
  status :: string
  assigned_to_id :: int

text \<open>A rendered button: its label and the status its \<open>onClick\<close> passes on.\<close>

datatype control = Button string string

fun target :: "control \<Rightarrow> string" where
  "target (Button label new_status) = new_status"

text \<open>\<open>user?.role === 'admin' || task.assigned_to_id === user?.id\<close>\<close>

definition may_update :: "User option \<Rightarrow> Task \<Rightarrow> bool" where
  "may_update usr task =
     (case usr of None \<Rightarrow> False
      | Some u \<Rightarrow> role u = ''admin'' \<or> assigned_to_id task = user_id u)"

text \<open>The "Status Update Buttons" block of \<open>Tasks.tsx\<close>.\<close>

definition Tasks_status_buttons :: "User option \<Rightarrow> Task \<Rightarrow> control list" where
  "Tasks_status_buttons usr task =
     (if may_update usr task then
        (if status task = ''todo'' then [Button ''Start'' ''in_progress''] else []) @
        (if status task = ''in_progress''
         then [Button ''Review'' ''review'', Button ''Complete'' ''completed''] else []) @
        (if status task = ''review'' then [Button ''Complete'' ''completed''] else [])
      else [])"

text \<open>The same block of \<open>TaskManagement\<close>, which has no role check.\<close>

definition TaskManagement_status_buttons :: "Task \<Rightarrow> control list" where
  "TaskManagement_status_buttons task =
     (if status task \<noteq> ''completed'' then
        (if status task = ''todo'' then [Button ''Start'' ''in_progress''] else []) @
        (if status task = ''in_progress''
         then [Button ''Review'' ''review'', Button ''Complete'' ''completed''] else []) @
        (if status task = ''review'' then [Button ''Complete'' ''completed''] else [])
      else [])"

text \<open>
  The position of a status in the enumeration
  todo, in_progress, review, completed/blocked; a status outside it has none.
\<close>

definition status_rank :: "string \<Rightarrow> nat option" where
  "status_rank s =
     (if s = ''todo'' then Some 0
      else if s = ''in_progress'' then Some 1
      else if s = ''review'' then Some 2
      else if s = ''completed'' \<or> s = ''blocked'' then Some 3
      else None)"

definition forward :: "string \<Rightarrow> string \<Rightarrow> bool" where
  "forward old new =
     (case (status_rank old, status_rank new) of
        (Some i, Some j) \<Rightarrow> i < j
      | _ \<Rightarrow> False)"


text \<open>
  The shared axios instance \<open>api\<close> of \<open>lib/api.ts\<close> is not among the sources.  It is a
  parameter: a function from the request the call site describes to the settled promise of
  \<open>response.data\<close>.
\<close>

type_synonym api = "request \<Rightarrow> json promise"

definition get_request :: "string \<Rightarrow> (string \<times> string) list \<Rightarrow> request" where
  "get_request u ps = \<lparr>http_method = ''GET'', url = u, params = ps, headers = [], body = None\<rparr>"

definition put_request :: "string \<Rightarrow> json \<Rightarrow> request" where
  "put_request u d = \<lparr>http_method = ''PUT'', url = u, params = [], headers = [], body = Some d\<rparr>"

definition post_request :: "string \<Rightarrow> json \<Rightarrow> request" where
  "post_request u d = \<lparr>http_method = ''POST'', url = u, params = [], headers = [], body = Some d\<rparr>"

definition api_get :: "api \<Rightarrow> string \<Rightarrow> (string \<times> string) list \<Rightarrow> json promise" where
  "api_get ap u ps = ap (get_request u ps)"

definition api_put :: "api \<Rightarrow> string \<Rightarrow> json \<Rightarrow> json promise" where
  "api_put ap u d = ap (put_request u d)"

definition api_post :: "api \<Rightarrow> string \<Rightarrow> json \<Rightarrow> json promise" where
  "api_post ap u d = ap (post_request u d)"

subsection \<open>\<open>Tasks.tsx\<close>: queries and the status-update mutation\<close>

text \<open>\<open>if (f) params.append(k, f)\<close>: the empty string is falsy.\<close>

definition append_if :: "string \<Rightarrow> string \<Rightarrow> (string \<times> string) list" where
  "append_if k f = (if f \<noteq> [] then [(k, f)] else [])"

definition Tasks_stats_queryFn :: "api \<Rightarrow> json promise" where
  "Tasks_stats_queryFn ap = api_get ap ''/api/v1/tasks/stats'' []"

definition Tasks_tasks_queryFn :: "api \<Rightarrow> string \<Rightarrow> string \<Rightarrow> string \<Rightarrow> json promise" where
  "Tasks_tasks_queryFn ap statusFilter priorityFilter assigneeFilter =
     api_get ap ''/api/v1/tasks/''
       (append_if ''status'' statusFilter @
        append_if ''priority'' priorityFilter @
        append_if ''assigned_to_id'' assigneeFilter)"

definition Tasks_employees_queryFn :: "api \<Rightarrow> json promise" where
  "Tasks_employees_queryFn ap = api_get ap ''/api/v1/tasks/employees/list'' []"

text \<open>
  \<open>updateTaskMutation.mutationFn\<close>.  Both \<open>status\<close> and \<open>actual_hours\<close> are optional
  (\<open>None\<close> is \<open>undefined\<close>); \<open>if (status)\<close> also skips the empty string, whereas
  \<open>actual_hours !== undefined\<close> skips nothing else.
\<close>

definition updateData :: "string option \<Rightarrow> rat option \<Rightarrow> (string \<times> json) list" where
  "updateData new_status actual_hours =
     (case new_status of
        Some s \<Rightarrow> (if s \<noteq> [] then [(''status'', JStr s)] else [])
      | None \<Rightarrow> []) @
     (case actual_hours of
        Some h \<Rightarrow> [(''actual_hours'', JNum h)]
      | None \<Rightarrow> [])"

definition updateTaskMutation :: "api \<Rightarrow> int \<Rightarrow> string option \<Rightarrow> rat option \<Rightarrow> json promise" where
  "updateTaskMutation ap taskId new_status actual_hours =
     api_put ap (''/api/v1/tasks/'' @ toString taskId) (JObj (updateData new_status actual_hours))"

definition handleStatusChange :: "api \<Rightarrow> int \<Rightarrow> string \<Rightarrow> json promise" where
  "handleStatusChange ap taskId newStatus = updateTaskMutation ap taskId (Some newStatus) None"

text \<open>What a click on a status button of \<open>Tasks.tsx\<close> does.\<close>

definition Tasks_onClick :: "api \<Rightarrow> Task \<Rightarrow> control \<Rightarrow> json promise" where
  "Tasks_onClick ap task b = handleStatusChange ap (task_id task) (target b)"


subsection \<open>Requests sent with \<open>fetch\<close>\<close>

text \<open>
  \<open>TaskManagement\<close>, \<open>MeetingManagement\<close> and \<open>PerformanceDashboard\<close> read
  \<open>localStorage.getItem('access_token')\<close> and write the same two headers.
\<close>

definition bearer :: "storage \<Rightarrow> string" where
  "bearer st = ''Bearer '' @ template_nullable (st ''access_token'')"

definition auth_json_headers :: "storage \<Rightarrow> (string \<times> string) list" where
  "auth_json_headers st =
     [(''Authorization'', bearer st), (''Content-Type'', ''application/json'')]"

text \<open>The \<open>filters\<close> state of \<open>TaskManagement\<close>.\<close>

record task_filters =
  filter_status :: string
  filter_priority :: string
  filter_type :: string
  filter_assigned_to_id :: string

definition filters_entries :: "task_filters \<Rightarrow> (string \<times> string) list" where
  "filters_entries f =
     filter (\<lambda>(k, v). v \<noteq> [])
       [(''status'', filter_status f), (''priority'', filter_priority f),
        (''type'', filter_type f), (''assigned_to_id'', filter_assigned_to_id f)]"

definition fetchTasks_request :: "storage \<Rightarrow> int \<Rightarrow> task_filters \<Rightarrow> request" where
  "fetchTasks_request st currentPage f =
     \<lparr>http_method = ''GET'', url = ''http://localhost:8000/api/v1/tasks/'',
      params = [(''page'', toString currentPage), (''per_page'', ''10'')] @ filters_entries f,
      headers = auth_json_headers st, body = None\<rparr>"

definition fetchStats_request :: "storage \<Rightarrow> request" where
  "fetchStats_request st =
     \<lparr>http_method = ''GET'', url = ''http://localhost:8000/api/v1/tasks/stats'', params = [],
      headers = auth_json_headers st, body = None\<rparr>"

definition fetchEmployees_request :: "storage \<Rightarrow> request" where
  "fetchEmployees_request st =
     \<lparr>http_method = ''GET'', url = ''http://localhost:8000/api/v1/tasks/employees/list'', params = [],
      headers = auth_json_headers st, body = None\<rparr>"

text \<open>\<open>createTask\<close>; \<open>taskData\<close> is the object it serialises.\<close>

definition createTask_request :: "storage \<Rightarrow> json \<Rightarrow> request" where
  "createTask_request st taskData =
     \<lparr>http_method = ''POST'', url = ''http://localhost:8000/api/v1/tasks/'', params = [],
      headers = auth_json_headers st, body = Some taskData\<rparr>"

definition updateTaskStatus_request :: "storage \<Rightarrow> int \<Rightarrow> string \<Rightarrow> request" where
  "updateTaskStatus_request st taskId new_status =
     \<lparr>http_method = ''PUT'', url = ''http://localhost:8000/api/v1/tasks/'' @ toString taskId,
      params = [], headers = auth_json_headers st,
      body = Some (JObj [(''status'', JStr new_status)])\<rparr>"

text \<open>What a click on a status button of \<open>TaskManagement\<close> sends.\<close>

definition TaskManagement_onClick :: "storage \<Rightarrow> Task \<Rightarrow> control \<Rightarrow> request" where
  "TaskManagement_onClick st task b = updateTaskStatus_request st (task_id task) (target b)"

text \<open>\<open>PerformanceDashboard\<close> and \<open>MeetingManagement\<close>.\<close>

definition API_BASE_URL :: string where
  "API_BASE_URL = ''http://localhost:8000/api/v1''"

definition fetch_get :: "storage \<Rightarrow> string \<Rightarrow> request" where
  "fetch_get st path =
     \<lparr>http_method = ''GET'', url = API_BASE_URL @ path, params = [],
      headers = auth_json_headers st, body = None\<rparr>"

definition fetchTeamOverview_request :: "storage \<Rightarrow> request" where
  "fetchTeamOverview_request st = fetch_get st ''/performance/team-overview''"

definition fetchEmployeeStats_request :: "storage \<Rightarrow> request" where
  "fetchEmployeeStats_request st = fetch_get st ''/performance/employees''"

definition fetchEmployeeHistory_request :: "storage \<Rightarrow> int \<Rightarrow> request" where
  "fetchEmployeeHistory_request st employeeId =
     (fetch_get st (''/performance/employee/'' @ toString employeeId @ ''/performance''))
       \<lparr>params := [(''months'', ''6'')]\<rparr>"

definition fetchMeetings_request :: "storage \<Rightarrow> request" where
  "fetchMeetings_request st = fetch_get st ''/meetings/''"

definition fetchUsers_request :: "storage \<Rightarrow> request" where
  "fetchUsers_request st = fetch_get st ''/users/''"

definition fetchClients_request :: "storage \<Rightarrow> request" where
  "fetchClients_request st = fetch_get st ''/clients/''"

definition fetchLeads_request :: "storage \<Rightarrow> request" where
  "fetchLeads_request st = fetch_get st ''/leads/''"

text \<open>
  \<open>MeetingManagement.handleSubmit\<close>: \<open>editing\<close> is the id of \<open>editingMeeting\<close> when
  there is one, \<open>form\<close> the serialised \<open>formData\<close>.
\<close>

definition meeting_submit_request :: "storage \<Rightarrow> int option \<Rightarrow> json \<Rightarrow> request" where
  "meeting_submit_request st editing form =
     \<lparr>http_method = (case editing of Some i \<Rightarrow> ''PUT'' | None \<Rightarrow> ''POST''),
      url = (case editing of Some i \<Rightarrow> API_BASE_URL @ ''/meetings/'' @ toString i
             | None \<Rightarrow> API_BASE_URL @ ''/meetings/''),
      params = [], headers = auth_json_headers st, body = Some form\<rparr>"

definition meeting_delete_request :: "storage \<Rightarrow> int \<Rightarrow> request" where
  "meeting_delete_request st i =
     \<lparr>http_method = ''DELETE'', url = API_BASE_URL @ ''/meetings/'' @ toString i, params = [],
      headers = [(''Authorization'', bearer st)], body = None\<rparr>"

definition meeting_status_request :: "storage \<Rightarrow> int \<Rightarrow> string \<Rightarrow> request" where
  "meeting_status_request st i new_status =
     \<lparr>http_method = ''PATCH'', url = API_BASE_URL @ ''/meetings/'' @ toString i @ ''/status'',
      params = [], headers = auth_json_headers st,
      body = Some (JObj [(''status'', JStr new_status)])\<rparr>"

text \<open>
  \<open>ClientPortal.handleSubmit\<close>, on the public route \<open>/portal/:clientId\<close>.  The
  route parameter may be \<open>undefined\<close>.
\<close>

record ClientPortalData =
  project_requirements :: string
  budget_range :: string
  timeline :: string
  additional_info :: string
  preferred_contact_method :: string
  urgency_level :: string

definition portal_json :: "ClientPortalData \<Rightarrow> json" where
  "portal_json d =
     JObj [(''project_requirements'', JStr (project_requirements d)),
           (''budget_range'', JStr (budget_range d)),
           (''timeline'', JStr (timeline d)),
           (''additional_info'', JStr (additional_info d)),
           (''preferred_contact_method'', JStr (preferred_contact_method d)),
           (''urgency_level'', JStr (urgency_level d))]"

definition portal_submit_request :: "string option \<Rightarrow> ClientPortalData \<Rightarrow> request" where
  "portal_submit_request clientId formData =
     \<lparr>http_method = ''POST'',
      url = ''http://localhost:8000/api/v1/clients/portal/'' @
            (case clientId of None \<Rightarrow> ''undefined'' | Some c \<Rightarrow> c) @ ''/submit'',
      params = [],
      headers = [(''Content-Type'', ''application/json'')],
      body = Some (portal_json formData)\<rparr>"

definition header :: "request \<Rightarrow> string \<Rightarrow> string option" where
  "header r k = map_of (headers r) k"


section \<open>\<open>EmployeeProfile.tsx\<close>: queries with and without a fallback\<close>

text \<open>
  The mock objects are written out in the \<open>catch\<close> blocks.  Two of them hold date
  strings computed when the block runs: \<open>toISO\<close> stands for \<open>Date.prototype.toISOString\<close>
  on a time value in milliseconds, and each further argument is one reading of the clock.
\<close>

definition taskAnalytics_mock :: "(int \<Rightarrow> string) \<Rightarrow> int \<Rightarrow> int \<Rightarrow> json" where
  "taskAnalytics_mock toISO t1 t2 =
     JObj [(''total_tasks'', JNum 8),
           (''completed_tasks'', JNum 5),
           (''in_progress_tasks'', JNum 2),
           (''overdue_tasks'', JNum 1),
           (''total_hours_logged'', JNum 42.5),
           (''avg_completion_time'', JNum 6.2),
           (''productivity_score'', JNum 85.5),
           (''tasks_by_month'',
              JArr [JObj [(''month'', JStr ''Sep 2025''), (''count'', JNum 3)],
                    JObj [(''month'', JStr ''Oct 2025''), (''count'', JNum 5)]]),
           (''tasks_by_priority'',
              JArr [JObj [(''priority'', JStr ''high''), (''count'', JNum 3)],
                    JObj [(''priority'', JStr ''medium''), (''count'', JNum 4)],
                    JObj [(''priority'', JStr ''low''), (''count'', JNum 1)]]),
           (''recent_tasks'',
              JArr [JObj [(''id'', JNum 1),
                          (''title'', JStr ''Design homepage mockup''),
                          (''status'', JStr ''completed''),
                          (''priority'', JStr ''high''),
                          (''type'', JStr ''design''),
                          (''due_date'', JStr (toISO t1)),
                          (''created_at'', JStr (toISO t2))]])]"

definition financeAnalytics_mock :: json where
  "financeAnalytics_mock =
     JObj [(''total_revenue_generated'', JNum 15750),
           (''billable_hours'', JNum 210),
           (''hourly_rate'', JNum 75),
           (''monthly_earnings'',
              JArr [JObj [(''month'', JStr ''Aug 2025''), (''amount'', JNum 5250)],
                    JObj [(''month'', JStr ''Sep 2025''), (''amount'', JNum 6000)],
                    JObj [(''month'', JStr ''Oct 2025''), (''amount'', JNum 4500)]]),
           (''project_earnings'',
              JArr [JObj [(''project'', JStr ''TechCorp Solutions''), (''amount'', JNum 7500)],
                    JObj [(''project'', JStr ''Marketing Pro Agency''), (''amount'', JNum 4250)],
                    JObj [(''project'', JStr ''StartupXYZ''), (''amount'', JNum 4000)]]),
           (''efficiency_rating'', JNum 4.2)]"

definition days_ms :: "int \<Rightarrow> int" where
  "days_ms d = d * 24 * 60 * 60 * 1000"

definition projectAnalytics_mock :: "(int \<Rightarrow> string) \<Rightarrow> int \<Rightarrow> int \<Rightarrow> int \<Rightarrow> json" where
  "projectAnalytics_mock toISO t1 t2 t3 =
     JObj [(''active_projects'', JNum 2),
           (''completed_projects'', JNum 3),
           (''total_projects'', JNum 5),
           (''project_success_rate'', JNum 90),
           (''projects'',
              JArr [JObj [(''id'', JNum 1),
                          (''name'', JStr ''TechCorp Website Redesign''),
                          (''status'', JStr ''in_progress''),
                          (''progress'', JNum 75),
                          (''client'', JStr ''TechCorp Solutions''),
                          (''start_date'', JStr (toISO (t1 - days_ms 30))),
                          (''budget'', JNum 15000)],
                    JObj [(''id'', JNum 2),
                          (''name'', JStr ''Marketing Campaign''),
                          (''status'', JStr ''completed''),
                          (''progress'', JNum 100),
                          (''client'', JStr ''Marketing Pro Agency''),
                          (''start_date'', JStr (toISO (t2 - days_ms 60))),
                          (''end_date'', JStr (toISO (t3 - days_ms 10))),
                          (''budget'', JNum 8000)]])]"

definition leadAnalytics_mock :: json where
  "leadAnalytics_mock =
     JObj [(''leads_generated'', JNum 24),
           (''leads_converted'', JNum 18),
           (''conversion_rate'', JNum 75),
           (''monthly_leads'',
              JArr [JObj [(''month'', JStr ''Aug 2025''), (''leads'', JNum 8), (''converted'', JNum 6)],
                    JObj [(''month'', JStr ''Sep 2025''), (''leads'', JNum 10), (''converted'', JNum 8)],
                    JObj [(''month'', JStr ''Oct 2025''), (''leads'', JNum 6), (''converted'', JNum 4)]]),
           (''lead_sources'',
              JArr [JObj [(''source'', JStr ''referral''), (''count'', JNum 8)],
                    JObj [(''source'', JStr ''website''), (''count'', JNum 6)],
                    JObj [(''source'', JStr ''social_media''), (''count'', JNum 5)],
                    JObj [(''source'', JStr ''email''), (''count'', JNum 5)]]),
           (''avg_lead_value'', JNum 1250)]"

text \<open>\<open>try { return (await api.get(u)).data } catch { return mock }\<close>\<close>

definition with_fallback :: "json promise \<Rightarrow> json \<Rightarrow> json promise" where
  "with_fallback p mock = (case p of Inr d \<Rightarrow> Inr d | Inl e \<Rightarrow> Inr mock)"

text \<open>The route parameter \<open>id\<close> is a string; the queries are enabled only when it is set.\<close>

definition employee_queryFn :: "api \<Rightarrow> string \<Rightarrow> json promise" where
  "employee_queryFn ap eid = api_get ap (''/api/v1/users/'' @ eid) []"

definition taskAnalytics_queryFn ::
    "api \<Rightarrow> string \<Rightarrow> (int \<Rightarrow> string) \<Rightarrow> int \<Rightarrow> int \<Rightarrow> json promise" where
  "taskAnalytics_queryFn ap eid toISO t1 t2 =
     with_fallback (api_get ap (''/api/v1/analytics/employee/'' @ eid @ ''/tasks'') [])
       (taskAnalytics_mock toISO t1 t2)"

definition financeAnalytics_queryFn :: "api \<Rightarrow> string \<Rightarrow> json promise" where
  "financeAnalytics_queryFn ap eid =
     with_fallback (api_get ap (''/api/v1/analytics/employee/'' @ eid @ ''/finance'') [])
       financeAnalytics_mock"

definition projectAnalytics_queryFn ::
    "api \<Rightarrow> string \<Rightarrow> (int \<Rightarrow> string) \<Rightarrow> int \<Rightarrow> int \<Rightarrow> int \<Rightarrow> json promise" where
  "projectAnalytics_queryFn ap eid toISO t1 t2 t3 =
     with_fallback (api_get ap (''/api/v1/analytics/employee/'' @ eid @ ''/projects'') [])
       (projectAnalytics_mock toISO t1 t2 t3)"

definition leadAnalytics_queryFn :: "api \<Rightarrow> string \<Rightarrow> json promise" where
  "leadAnalytics_queryFn ap eid =
     with_fallback (api_get ap (''/api/v1/analytics/employee/'' @ eid @ ''/leads'') [])
       leadAnalytics_mock"


section \<open>Declared and used task statuses\<close>

text \<open>
  A string-literal union type is the list of its literals.  These are the \<open>status\<close>
  members of the \<open>Task\<close> interfaces of \<open>types/index.ts\<close>, \<open>Tasks.tsx\<close> and
  \<open>ClientDetail\<close>; \<open>TaskManagement\<close> declares plain \<open>string\<close>, which admits
  every value.
\<close>

definition types_index_Task_status :: "string list" where
  "types_index_Task_status = [''pending'', ''in_progress'', ''completed'', ''failed'']"

definition Tasks_Task_status :: "string list" where
  "Tasks_Task_status = [''todo'', ''in_progress'', ''review'', ''completed'', ''blocked'']"

definition ClientDetail_Task_status :: "string list" where
  "ClientDetail_Task_status = [''todo'', ''in_progress'', ''review'', ''completed'']"

definition TaskManagement_Task_status :: "string \<Rightarrow> bool" where
  "TaskManagement_Task_status s = True"

text \<open>The \<open>option\<close> values of the status filter (both task pages), "All Statuses" first.\<close>

definition status_filter_options :: "string list" where
  "status_filter_options =
     [[], ''todo'', ''in_progress'', ''review'', ''completed'', ''blocked'']"

text \<open>The keys of the colour table of \<open>getStatusColor\<close> (both task pages).\<close>

definition status_color_keys :: "string list" where
  "status_color_keys = [''todo'', ''in_progress'', ''review'', ''completed'', ''blocked'']"

text \<open>The enumeration the specification names for a task's status.\<close>

definition spec_task_statuses :: "string set" where
  "spec_task_statuses = {''todo'', ''in_progress'', ''review'', ''completed'', ''blocked''}"


section \<open>\<open>ContentEngine\<close>: the Trending Topics tab\<close>

record TrendingTopic =
  title :: string
  popularity_score :: rat
  source :: string

text \<open>\<open>(a, b) => b.popularity_score - a.popularity_score\<close>\<close>

definition compareFn :: "TrendingTopic \<Rightarrow> TrendingTopic \<Rightarrow> rat" where
  "compareFn a b = popularity_score b - popularity_score a"

text \<open>
  \<open>Array.prototype.sort\<close> with a comparator: a stable sort that puts \<open>a\<close> before
  \<open>b\<close> when the comparator is negative and keeps their order when it is zero.
\<close>

fun insort_cmp :: "('a \<Rightarrow> 'a \<Rightarrow> rat) \<Rightarrow> 'a \<Rightarrow> 'a list \<Rightarrow> 'a list" where
  "insort_cmp cmp x [] = [x]"
| "insort_cmp cmp x (y # ys) =
     (if cmp x y \<le> 0 then x # y # ys else y # insort_cmp cmp x ys)"

definition js_sort :: "('a \<Rightarrow> 'a \<Rightarrow> rat) \<Rightarrow> 'a list \<Rightarrow> 'a list" where
  "js_sort cmp xs = foldr (insort_cmp cmp) xs []"

text \<open>The order the tab announces: "Sorted by Score (High to Low)".\<close>

definition score_ge :: "TrendingTopic \<Rightarrow> TrendingTopic \<Rightarrow> bool" where
  "score_ge a b = (popularity_score a \<ge> popularity_score b)"

text \<open>The topics in the order the tab maps them to cards.\<close>

definition displayed_topics :: "TrendingTopic list \<Rightarrow> TrendingTopic list" where
  "displayed_topics trending_topics = js_sort compareFn trending_topics"


section \<open>\<open>MeetingManagement\<close>: the list filter\<close>

record Meeting =
  meeting_id :: int
  start_time :: string
  meeting_status :: string

text \<open>
  \<open>new Date(s)\<close> is a parameter \<open>parse\<close>: the time value in milliseconds, or
  \<open>None\<close> for an invalid date, whose comparisons are all false.  \<open>now\<close> is the time
  value of \<open>new Date()\<close>, which the callback reads for each meeting; one pass over the list
  is taken at one instant.
\<close>

definition date_gt :: "int option \<Rightarrow> int \<Rightarrow> bool" where
  "date_gt d now = (case d of Some t \<Rightarrow> t > now | None \<Rightarrow> False)"

definition date_lt :: "int option \<Rightarrow> int \<Rightarrow> bool" where
  "date_lt d now = (case d of Some t \<Rightarrow> t < now | None \<Rightarrow> False)"

definition meeting_shown :: "(string \<Rightarrow> int option) \<Rightarrow> int \<Rightarrow> string \<Rightarrow> Meeting \<Rightarrow> bool" where
  "meeting_shown parse now flt meeting =
     (if flt = ''all'' then True
      else if flt = ''upcoming'' then date_gt (parse (start_time meeting)) now
      else if flt = ''past'' then date_lt (parse (start_time meeting)) now
      else meeting_status meeting = flt)"

definition filteredMeetings ::
    "(string \<Rightarrow> int option) \<Rightarrow> int \<Rightarrow> string \<Rightarrow> Meeting list \<Rightarrow> Meeting list" where
  "filteredMeetings parse now flt meetings = filter (meeting_shown parse now flt) meetings"


section \<open>\<open>ClientForm.tsx\<close>: validation and submission\<close>
















































section \<open>Sample values\<close>

definition alice :: User where
  "alice = \<lparr>user_id = 1, email = ''alice@example.com'', full_name = ''Alice'',
             role = ''admin'', is_active = True\<rparr>"

definition sample_task :: "string \<Rightarrow> Task" where
  "sample_task s = \<lparr>task_id = 7, status = s, assigned_to_id = 2\<rparr>"

definition failing_api :: api where
  "failing_api r = Inl (HttpError 500)"



definition sample_portal :: ClientPortalData where
  "sample_portal = \<lparr>project_requirements = ''site'', budget_range = ''5k'', timeline = ''q1'',
                     additional_info = [], preferred_contact_method = ''email'',
                     urgency_level = ''medium''\<rparr>"

definition topic :: "string \<Rightarrow> rat \<Rightarrow> TrendingTopic" where
  "topic t p = \<lparr>title = t, popularity_score = p, source = ''reddit''\<rparr>"

definition sample_parse :: "string \<Rightarrow> int option" where
  "sample_parse s =
     (if s = ''1970-01-01T00:00:01.000Z'' then Some 1000
      else if s = ''1970-01-01T00:00:02.000Z'' then Some 2000
      else if s = ''1970-01-01T00:00:03.000Z'' then Some 3000
      else None)"

definition meeting_at :: "int \<Rightarrow> string \<Rightarrow> Meeting" where
  "meeting_at i s = \<lparr>meeting_id = i, start_time = s, meeting_status = ''scheduled''\<rparr>"


section \<open>Properties\<close>

lemma Tasks_status_buttons_cases:
  "b \<in> set (Tasks_status_buttons usr task) \<Longrightarrow>
     (status task = ''todo'' \<and> target b = ''in_progress'') \<or>
     (status task = ''in_progress'' \<and> (target b = ''review'' \<or> target b = ''completed'')) \<or>
     (status task = ''review'' \<and> target b = ''completed'')"
  by (auto simp: Tasks_status_buttons_def split: if_splits)

lemma TaskManagement_status_buttons_cases:
  "b \<in> set (TaskManagement_status_buttons task) \<Longrightarrow>
     (status task = ''todo'' \<and> target b = ''in_progress'') \<or>
     (status task = ''in_progress'' \<and> (target b = ''review'' \<or> target b = ''completed'')) \<or>
     (status task = ''review'' \<and> target b = ''completed'')"
  by (auto simp: TaskManagement_status_buttons_def split: if_splits)

lemma forward_cases:
  "forward ''todo'' ''in_progress''" "forward ''in_progress'' ''review''"
  "forward ''in_progress'' ''completed''" "forward ''review'' ''completed''"
  by (simp_all add: forward_def status_rank_def)

text \<open>
  Claim C1.  On both task pages the status buttons of a task start only forward
  transitions of the enumeration: from \<open>todo\<close> only to \<open>in_progress\<close>, from
  \<open>in_progress\<close> only to \<open>review\<close> or \<open>completed\<close>, from \<open>review\<close> only to
  \<open>completed\<close>.  The click sends a \<open>PUT\<close> whose body is just that new status.  A
  task that is \<open>completed\<close> or \<open>blocked\<close> has no status button, and no button moves a
  status backwards.
\<close>

theorem status_controls_forward_only:
  "(\<forall>b \<in> set (Tasks_status_buttons usr task) \<union> set (TaskManagement_status_buttons task).
      ((status task = ''todo'' \<and> target b = ''in_progress'') \<or>
       (status task = ''in_progress'' \<and> (target b = ''review'' \<or> target b = ''completed'')) \<or>
       (status task = ''review'' \<and> target b = ''completed'')) \<and>
      forward (status task) (target b) \<and>
      Tasks_onClick ap task b =
        ap (put_request (''/api/v1/tasks/'' @ toString (task_id task))
              (JObj [(''status'', JStr (target b))])) \<and>
      body (TaskManagement_onClick st task b) = Some (JObj [(''status'', JStr (target b))])) \<and>
   (status task = ''completed'' \<or> status task = ''blocked'' \<longrightarrow>
      Tasks_status_buttons usr task = [] \<and> TaskManagement_status_buttons task = [])"
proof (intro conjI ballI impI)
  fix b
  assume b: "b \<in> set (Tasks_status_buttons usr task) \<union> set (TaskManagement_status_buttons task)"
  then show c: "(status task = ''todo'' \<and> target b = ''in_progress'') \<or>
       (status task = ''in_progress'' \<and> (target b = ''review'' \<or> target b = ''completed'')) \<or>
       (status task = ''review'' \<and> target b = ''completed'')"
    using Tasks_status_buttons_cases TaskManagement_status_buttons_cases by blast
  then show "forward (status task) (target b)"
    using forward_cases by auto
  from c have "target b \<noteq> []" by auto
  then show "Tasks_onClick ap task b =
        ap (put_request (''/api/v1/tasks/'' @ toString (task_id task))
              (JObj [(''status'', JStr (target b))]))"
    by (simp add: Tasks_onClick_def handleStatusChange_def updateTaskMutation_def
        updateData_def api_put_def)
  show "body (TaskManagement_onClick st task b) = Some (JObj [(''status'', JStr (target b))])"
    by (simp add: TaskManagement_onClick_def updateTaskStatus_request_def)
next
  assume "status task = ''completed'' \<or> status task = ''blocked''"
  then show "Tasks_status_buttons usr task = []"
    by (auto simp: Tasks_status_buttons_def)
next
  assume "status task = ''completed'' \<or> status task = ''blocked''"
  then show "TaskManagement_status_buttons task = []"
    by (auto simp: TaskManagement_status_buttons_def)
qed

lemma sample_buttons:
  "Tasks_status_buttons (Some alice) (sample_task ''in_progress'') =
     [Button ''Review'' ''review'', Button ''Complete'' ''completed'']"
  by (simp add: Tasks_status_buttons_def may_update_def alice_def sample_task_def)

theorem status_controls_forward_only_witness:
  "Button ''Review'' ''review'' \<in> set (Tasks_status_buttons (Some alice) (sample_task ''in_progress'')) \<and>
   forward ''in_progress'' ''review'' \<and>
   Tasks_status_buttons (Some alice) (sample_task ''completed'') = [] \<and>
   TaskManagement_status_buttons (sample_task ''blocked'') = []"
proof -
  have m: "Button ''Review'' ''review'' \<in>
      set (Tasks_status_buttons (Some alice) (sample_task ''in_progress'')) \<union>
      set (TaskManagement_status_buttons (sample_task ''in_progress''))"
    by (simp add: sample_buttons)
  have "forward (status (sample_task ''in_progress'')) (target (Button ''Review'' ''review''))"
    using status_controls_forward_only [of "Some alice" "sample_task ''in_progress''"] m
    by blast
  then have "forward ''in_progress'' ''review''"
    by (simp add: sample_task_def)
  moreover have "Tasks_status_buttons (Some alice) (sample_task ''completed'') = []"
    using status_controls_forward_only [of "Some alice" "sample_task ''completed''"]
    by (simp add: sample_task_def)
  moreover have "TaskManagement_status_buttons (sample_task ''blocked'') = []"
    using status_controls_forward_only [of "Some alice" "sample_task ''blocked''"]
    by (simp add: sample_task_def)
  ultimately show ?thesis
    by (simp add: sample_buttons)
qed

text \<open>
  Claim C8, as stated, says the children are rendered exactly when \<open>user\<close> is non-null.
  While \<open>loading\<close> is true a non-null user still gets the spinner.
\<close>

theorem ProtectedRoute_children_counterexample:
  "Some alice \<noteq> None \<and> ProtectedRoute (Some alice) True ''page'' \<noteq> Children ''page''"
  by (simp add: ProtectedRoute_def)

text \<open>
  Claim C8, amended.  \<open>ProtectedRoute\<close> renders only the spinner while \<open>loading\<close> is
  true; the redirect to \<open>/login\<close> when \<open>loading\<close> is false and \<open>user\<close> is null; and
  its children exactly when \<open>loading\<close> is false and \<open>user\<close> is non-null.  So it never
  renders the children without a user.
\<close>

theorem ProtectedRoute_guards:
  "(ld \<longrightarrow> ProtectedRoute usr ld c = Spinner) \<and>
   (\<not> ld \<and> usr = None \<longrightarrow> ProtectedRoute usr ld c = Navigate ''/login'' True) \<and>
   (ProtectedRoute usr ld c = Children c \<longleftrightarrow> \<not> ld \<and> usr \<noteq> None) \<and>
   (\<forall>c'. ProtectedRoute usr ld c = Children c' \<longrightarrow> usr \<noteq> None \<and> c' = c)"
  by (auto simp: ProtectedRoute_def)

theorem ProtectedRoute_guards_witness:
  "ProtectedRoute (Some alice) True ''page'' = Spinner \<and>
   ProtectedRoute (None :: User option) False ''page'' = Navigate ''/login'' True \<and>
   ProtectedRoute (Some alice) False ''page'' = Children ''page''"
proof -
  have "ProtectedRoute (Some alice) True ''page'' = Spinner"
    using ProtectedRoute_guards [of True "Some alice" "''page''"] by blast
  moreover have "ProtectedRoute (None :: User option) False ''page'' = Navigate ''/login'' True"
    using ProtectedRoute_guards [of False "None :: User option" "''page''"] by blast
  moreover have "ProtectedRoute (Some alice) False ''page'' = Children ''page''"
    using ProtectedRoute_guards [of False "Some alice" "''page''"] by blast
  ultimately show ?thesis by blast
qed

text \<open>
  Claim C9.  On start, when a token is stored (so that the verification call is issued) and
  the call fails, the provider removes the token from \<open>localStorage\<close>, leaves \<open>user\<close>
  null and sets \<open>loading\<close> to false.  \<open>user\<close> becomes non-null only when the call was
  issued and succeeded, and then it is the data of the answer.
\<close>

theorem AuthProvider_failed_verification:
  "(truthy (st ''token'') \<and> me = Inl e \<longrightarrow>
      store (AuthProvider_start st me) ''token'' = None \<and>
      user (AuthProvider_start st me) = None \<and>
      loading (AuthProvider_start st me) = False) \<and>
   (user (AuthProvider_start st me) \<noteq> None \<longrightarrow>
      truthy (st ''token'') \<and> (\<exists>data. me = Inr data \<and> user (AuthProvider_start st me) = Some data))"
  by (auto simp: AuthProvider_start_def AuthProvider_effect_def AuthProvider_init_def
      me_then_def me_catch_def me_finally_def split: sum.splits)

theorem AuthProvider_failed_verification_witness:
  "truthy ([''token'' \<mapsto> ''abc''] ''token'') \<and>
   store (AuthProvider_start [''token'' \<mapsto> ''abc''] (Inl (HttpError 401))) ''token'' = None \<and>
   user (AuthProvider_start [''token'' \<mapsto> ''abc''] (Inl (HttpError 401))) = None \<and>
   loading (AuthProvider_start [''token'' \<mapsto> ''abc''] (Inl (HttpError 401))) = False \<and>
   user (AuthProvider_start [''token'' \<mapsto> ''abc''] (Inr alice)) = Some alice"
proof -
  have t: "truthy ([''token'' \<mapsto> ''abc''] ''token'')"
    by (simp add: truthy_def)
  have "store (AuthProvider_start [''token'' \<mapsto> ''abc''] (Inl (HttpError 401))) ''token'' = None \<and>
      user (AuthProvider_start [''token'' \<mapsto> ''abc''] (Inl (HttpError 401))) = None \<and>
      loading (AuthProvider_start [''token'' \<mapsto> ''abc''] (Inl (HttpError 401))) = False"
    using AuthProvider_failed_verification
      [of "[''token'' \<mapsto> ''abc'']" "Inl (HttpError 401)" "HttpError 401"] t
    by blast
  moreover have u: "user (AuthProvider_start [''token'' \<mapsto> ''abc''] (Inr alice)) \<noteq> None"
    by (simp add: AuthProvider_start_def AuthProvider_effect_def AuthProvider_init_def
        me_then_def me_finally_def truthy_def)
  have "user (AuthProvider_start [''token'' \<mapsto> ''abc''] (Inr alice)) = Some alice"
    using AuthProvider_failed_verification
      [of "[''token'' \<mapsto> ''abc'']" "Inr alice"] u
    by auto
  ultimately show ?thesis using t by blast
qed

lemma meeting_shown_upcoming:
  "meeting_shown parse now ''upcoming'' m \<longleftrightarrow> (\<exists>t. parse (start_time m) = Some t \<and> now < t)"
  by (auto simp: meeting_shown_def date_gt_def split: option.splits)

lemma meeting_shown_past:
  "meeting_shown parse now ''past'' m \<longleftrightarrow> (\<exists>t. parse (start_time m) = Some t \<and> t < now)"
  by (auto simp: meeting_shown_def date_lt_def split: option.splits)

text \<open>
  Claim C10.  The filter \<open>upcoming\<close> shows exactly the meetings whose start time is
  strictly after now, \<open>past\<close> exactly those strictly before now; a meeting whose start
  time equals now is shown by neither; \<open>all\<close> shows every meeting.
\<close>

theorem filteredMeetings_strict:
  "set (filteredMeetings parse now ''upcoming'' ms) =
     {m \<in> set ms. \<exists>t. parse (start_time m) = Some t \<and> now < t} \<and>
   set (filteredMeetings parse now ''past'' ms) =
     {m \<in> set ms. \<exists>t. parse (start_time m) = Some t \<and> t < now} \<and>
   (parse (start_time m) = Some now \<longrightarrow>
      m \<notin> set (filteredMeetings parse now ''upcoming'' ms) \<and>
      m \<notin> set (filteredMeetings parse now ''past'' ms)) \<and>
   filteredMeetings parse now ''all'' ms = ms"
proof (intro conjI impI)
  show "set (filteredMeetings parse now ''upcoming'' ms) =
     {m \<in> set ms. \<exists>t. parse (start_time m) = Some t \<and> now < t}"
    by (simp add: filteredMeetings_def meeting_shown_upcoming)
  show "set (filteredMeetings parse now ''past'' ms) =
     {m \<in> set ms. \<exists>t. parse (start_time m) = Some t \<and> t < now}"
    by (simp add: filteredMeetings_def meeting_shown_past)
  show "filteredMeetings parse now ''all'' ms = ms"
    by (simp add: filteredMeetings_def meeting_shown_def)
next
  assume "parse (start_time m) = Some now"
  then show "m \<notin> set (filteredMeetings parse now ''upcoming'' ms)"
    by (simp add: filteredMeetings_def meeting_shown_upcoming)
next
  assume "parse (start_time m) = Some now"
  then show "m \<notin> set (filteredMeetings parse now ''past'' ms)"
    by (simp add: filteredMeetings_def meeting_shown_past)
qed

lemma sample_meetings_upcoming:
  "filteredMeetings sample_parse 2000 ''upcoming''
     [meeting_at 1 ''1970-01-01T00:00:01.000Z'', meeting_at 2 ''1970-01-01T00:00:02.000Z'',
      meeting_at 3 ''1970-01-01T00:00:03.000Z'', meeting_at 4 ''soon'']
   = [meeting_at 3 ''1970-01-01T00:00:03.000Z'']"
  by (simp add: filteredMeetings_def meeting_shown_def date_gt_def sample_parse_def meeting_at_def)

lemma sample_meetings_past:
  "filteredMeetings sample_parse 2000 ''past''
     [meeting_at 1 ''1970-01-01T00:00:01.000Z'', meeting_at 2 ''1970-01-01T00:00:02.000Z'',
      meeting_at 3 ''1970-01-01T00:00:03.000Z'', meeting_at 4 ''soon'']
   = [meeting_at 1 ''1970-01-01T00:00:01.000Z'']"
  by (simp add: filteredMeetings_def meeting_shown_def date_lt_def sample_parse_def meeting_at_def)

theorem filteredMeetings_strict_witness:
  "sample_parse (start_time (meeting_at 2 ''1970-01-01T00:00:02.000Z'')) = Some 2000 \<and>
   meeting_at 2 ''1970-01-01T00:00:02.000Z'' \<notin> set (filteredMeetings sample_parse 2000 ''upcoming''
     [meeting_at 1 ''1970-01-01T00:00:01.000Z'', meeting_at 2 ''1970-01-01T00:00:02.000Z'',
      meeting_at 3 ''1970-01-01T00:00:03.000Z'', meeting_at 4 ''soon'']) \<and>
   meeting_at 2 ''1970-01-01T00:00:02.000Z'' \<notin> set (filteredMeetings sample_parse 2000 ''past''
     [meeting_at 1 ''1970-01-01T00:00:01.000Z'', meeting_at 2 ''1970-01-01T00:00:02.000Z'',
      meeting_at 3 ''1970-01-01T00:00:03.000Z'', meeting_at 4 ''soon'']) \<and>
   filteredMeetings sample_parse 2000 ''upcoming''
     [meeting_at 1 ''1970-01-01T00:00:01.000Z'', meeting_at 2 ''1970-01-01T00:00:02.000Z'',
      meeting_at 3 ''1970-01-01T00:00:03.000Z'', meeting_at 4 ''soon'']
     = [meeting_at 3 ''1970-01-01T00:00:03.000Z'']"
proof -
  have h: "sample_parse (start_time (meeting_at 2 ''1970-01-01T00:00:02.000Z'')) = Some 2000"
    by (simp add: sample_parse_def meeting_at_def)
  show ?thesis
    using h filteredMeetings_strict [of sample_parse 2000
        "[meeting_at 1 ''1970-01-01T00:00:01.000Z'', meeting_at 2 ''1970-01-01T00:00:02.000Z'',
          meeting_at 3 ''1970-01-01T00:00:03.000Z'', meeting_at 4 ''soon'']"
        "meeting_at 2 ''1970-01-01T00:00:02.000Z''"]
      sample_meetings_upcoming
    by blast
qed

lemma set_insort_cmp: "set (insort_cmp cmp x xs) = insert x (set xs)"
  by (induction xs) auto

lemma mset_insort_cmp: "mset (insort_cmp cmp x xs) = add_mset x (mset xs)"
  by (induction xs) auto

lemma mset_js_sort: "mset (js_sort cmp xs) = mset xs"
  by (induction xs) (simp_all add: js_sort_def mset_insort_cmp)

lemma sorted_insort_compareFn:
  "sorted_wrt score_ge xs \<Longrightarrow> sorted_wrt score_ge (insort_cmp compareFn x xs)"
proof (induction xs)
  case Nil
  then show ?case by simp
next
  case (Cons y ys)
  show ?case
  proof (cases "compareFn x y \<le> 0")
    case True
    then have xy: "score_ge x y"
      by (simp add: compareFn_def score_ge_def)
    have "\<forall>z \<in> set ys. score_ge y z"
      using Cons.prems by simp
    then have "\<forall>z \<in> set ys. score_ge x z"
      using xy by (auto simp: score_ge_def)
    then show ?thesis
      using True xy Cons.prems by simp
  next
    case False
    then have yx: "score_ge y x"
      by (simp add: compareFn_def score_ge_def)
    have "sorted_wrt score_ge (insort_cmp compareFn x ys)"
      using Cons by simp
    then show ?thesis
      using False yx Cons.prems by (simp add: set_insort_cmp)
  qed
qed

lemma sorted_js_sort_compareFn: "sorted_wrt score_ge (js_sort compareFn xs)"
proof (induction xs)
  case Nil
  then show ?case by (simp add: js_sort_def)
next
  case (Cons x xs)
  then show ?case
    using sorted_insort_compareFn [of "js_sort compareFn xs" x]
    by (simp add: js_sort_def)
qed

text \<open>
  Claim C7.  The list rendered in the Trending Topics tab is in non-increasing order of
  \<open>popularity_score\<close>: each displayed topic scores at least as much as the one after it.
  The displayed list holds the same topics as the response.  Scores are the finite numbers
  the \<open>TrendingTopic\<close> interface declares; on those the sign of the comparator's
  difference is the sign of the exact difference.
\<close>

theorem displayed_topics_ranked:
  "sorted_wrt (\<lambda>a b. popularity_score a \<ge> popularity_score b) (displayed_topics ts) \<and>
   (\<forall>i. Suc i < length (displayed_topics ts) \<longrightarrow>
      popularity_score (displayed_topics ts ! i) \<ge> popularity_score (displayed_topics ts ! Suc i)) \<and>
   mset (displayed_topics ts) = mset ts"
proof -
  have s: "sorted_wrt score_ge (displayed_topics ts)"
    by (simp add: displayed_topics_def sorted_js_sort_compareFn)
  have a: "\<forall>i. Suc i < length (displayed_topics ts) \<longrightarrow>
      score_ge (displayed_topics ts ! i) (displayed_topics ts ! Suc i)"
    using s by (simp add: sorted_wrt_iff_nth_less)
  show ?thesis
    using s a by (simp add: score_ge_def [abs_def] displayed_topics_def mset_js_sort)
qed

lemma sample_displayed:
  "displayed_topics [topic ''a'' 40.5, topic ''b'' 92, topic ''c'' 40.5, topic ''d'' 77.3] =
     [topic ''b'' 92, topic ''d'' 77.3, topic ''a'' 40.5, topic ''c'' 40.5]"
  by (simp add: displayed_topics_def js_sort_def compareFn_def topic_def)

theorem displayed_topics_ranked_witness:
  "Suc 0 < length (displayed_topics [topic ''a'' 40.5, topic ''b'' 92, topic ''c'' 40.5, topic ''d'' 77.3]) \<and>
   popularity_score (displayed_topics [topic ''a'' 40.5, topic ''b'' 92, topic ''c'' 40.5, topic ''d'' 77.3] ! 0)
     \<ge> popularity_score (displayed_topics [topic ''a'' 40.5, topic ''b'' 92, topic ''c'' 40.5, topic ''d'' 77.3] ! Suc 0) \<and>
   displayed_topics [topic ''a'' 40.5, topic ''b'' 92, topic ''c'' 40.5, topic ''d'' 77.3] =
     [topic ''b'' 92, topic ''d'' 77.3, topic ''a'' 40.5, topic ''c'' 40.5]"
proof -
  have h: "Suc 0 < length (displayed_topics [topic ''a'' 40.5, topic ''b'' 92, topic ''c'' 40.5, topic ''d'' 77.3])"
    by (subst sample_displayed) simp
  show ?thesis
    using h sample_displayed
      displayed_topics_ranked [of "[topic ''a'' 40.5, topic ''b'' 92, topic ''c'' 40.5, topic ''d'' 77.3]"]
    by blast
qed



text \<open>
  Claim C3, as stated, says every request carries the bearer header.  The client-portal
  form submission carries none.
\<close>

theorem portal_submit_no_authorization_counterexample:
  "header (portal_submit_request (Some ''42'') sample_portal) ''Authorization'' = None"
  by (simp add: header_def portal_submit_request_def)

text \<open>
  Claim C3, amended.  Every request the pages send with \<open>fetch\<close>, other than the
  client-portal form submission, carries \<open>Authorization\<close> with the value \<open>Bearer\<close>
  followed by the entry \<open>access_token\<close> of \<open>localStorage\<close> (by the text \<open>null\<close>
  when there is none).  The client-portal form submission carries \<open>Content-Type\<close> only.
  What the shared axios instance adds to the other requests is outside the sources.
\<close>

theorem fetch_requests_authorization:
  "header (fetchTasks_request st currentPage f) ''Authorization'' = Some (bearer st) \<and>
   header (fetchStats_request st) ''Authorization'' = Some (bearer st) \<and>
   header (fetchEmployees_request st) ''Authorization'' = Some (bearer st) \<and>
   header (createTask_request st taskData) ''Authorization'' = Some (bearer st) \<and>
   header (updateTaskStatus_request st taskId new_status) ''Authorization'' = Some (bearer st) \<and>
   header (fetchTeamOverview_request st) ''Authorization'' = Some (bearer st) \<and>
   header (fetchEmployeeStats_request st) ''Authorization'' = Some (bearer st) \<and>
   header (fetchEmployeeHistory_request st employeeId) ''Authorization'' = Some (bearer st) \<and>
   header (fetchMeetings_request st) ''Authorization'' = Some (bearer st) \<and>
   header (fetchUsers_request st) ''Authorization'' = Some (bearer st) \<and>
   header (fetchClients_request st) ''Authorization'' = Some (bearer st) \<and>
   header (fetchLeads_request st) ''Authorization'' = Some (bearer st) \<and>
   header (meeting_submit_request st editing form) ''Authorization'' = Some (bearer st) \<and>
   header (meeting_delete_request st meetingId) ''Authorization'' = Some (bearer st) \<and>
   header (meeting_status_request st meetingId new_status) ''Authorization'' = Some (bearer st) \<and>
   bearer (st(''access_token'' \<mapsto> tok)) = ''Bearer '' @ tok \<and>
   bearer (st(''access_token'' := None)) = ''Bearer null'' \<and>
   header (portal_submit_request clientId formData) ''Authorization'' = None \<and>
   map fst (headers (portal_submit_request clientId formData)) = [''Content-Type'']"
  by (simp add: header_def auth_json_headers_def fetchTasks_request_def fetchStats_request_def
      fetchEmployees_request_def createTask_request_def updateTaskStatus_request_def
      fetch_get_def fetchTeamOverview_request_def fetchEmployeeStats_request_def
      fetchEmployeeHistory_request_def fetchMeetings_request_def fetchUsers_request_def
      fetchClients_request_def fetchLeads_request_def meeting_submit_request_def
      meeting_delete_request_def meeting_status_request_def portal_submit_request_def
      bearer_def template_nullable_def)

theorem fetch_requests_authorization_witness:
  "header (fetchTasks_request [''token'' \<mapsto> ''abc''] 1
      \<lparr>filter_status = ''todo'', filter_priority = [], filter_type = [],
       filter_assigned_to_id = []\<rparr>) ''Authorization'' = Some ''Bearer null'' \<and>
   header (updateTaskStatus_request [''access_token'' \<mapsto> ''abc''] 7 ''review'') ''Authorization''
     = Some ''Bearer abc''"
proof -
  have "bearer [''token'' \<mapsto> ''abc''] = ''Bearer null''"
    by (simp add: bearer_def template_nullable_def)
  moreover have "bearer [''access_token'' \<mapsto> ''abc''] = ''Bearer abc''"
    by (simp add: bearer_def template_nullable_def)
  ultimately show ?thesis
    using fetch_requests_authorization [of "[''token'' \<mapsto> ''abc'']" 1
        "\<lparr>filter_status = ''todo'', filter_priority = [], filter_type = [],
          filter_assigned_to_id = []\<rparr>"]
      fetch_requests_authorization [of "[''access_token'' \<mapsto> ''abc'']" _ _ _ 7 "''review''"]
    by simp
qed

text \<open>
  Claim C2, as stated, says every query falls back to mock data when its call fails.  The
  tasks query of \<open>Tasks.tsx\<close> rejects with the error of the call.
\<close>

theorem Tasks_query_no_fallback_counterexample:
  "Tasks_tasks_queryFn failing_api [] [] [] = Inl (HttpError 500)"
  by (simp add: Tasks_tasks_queryFn_def api_get_def failing_api_def)

lemma with_fallback_Inl: "with_fallback (Inl e) mock = Inr mock"
  by (simp add: with_fallback_def)

lemma with_fallback_Inr: "with_fallback (Inr d) mock = Inr d"
  by (simp add: with_fallback_def)

lemma with_fallback_never_rejects: "with_fallback p mock \<noteq> Inl e"
  by (simp add: with_fallback_def split: sum.splits)

text \<open>
  Claim C2, amended.  The four analytics queries of the employee profile page (tasks,
  finance, projects, leads) never reject: when the call fails they resolve to the mock object
  written in their \<open>catch\<close> block, which is fixed apart from the date strings of the task
  and project mocks; when it succeeds they resolve to its data.  The employee query of that page and the three queries of \<open>Tasks.tsx\<close>
  have no fallback: they settle as their call does.
\<close>

theorem analytics_queries_fall_back:
  "(ap (get_request (''/api/v1/analytics/employee/'' @ eid @ ''/tasks'') []) = Inl e \<longrightarrow>
      taskAnalytics_queryFn ap eid toISO t1 t2 = Inr (taskAnalytics_mock toISO t1 t2)) \<and>
   (ap (get_request (''/api/v1/analytics/employee/'' @ eid @ ''/finance'') []) = Inl e \<longrightarrow>
      financeAnalytics_queryFn ap eid = Inr financeAnalytics_mock) \<and>
   (ap (get_request (''/api/v1/analytics/employee/'' @ eid @ ''/projects'') []) = Inl e \<longrightarrow>
      projectAnalytics_queryFn ap eid toISO t1 t2 t3 = Inr (projectAnalytics_mock toISO t1 t2 t3)) \<and>
   (ap (get_request (''/api/v1/analytics/employee/'' @ eid @ ''/leads'') []) = Inl e \<longrightarrow>
      leadAnalytics_queryFn ap eid = Inr leadAnalytics_mock) \<and>
   (ap (get_request (''/api/v1/analytics/employee/'' @ eid @ ''/tasks'') []) = Inr d \<longrightarrow>
      taskAnalytics_queryFn ap eid toISO t1 t2 = Inr d) \<and>
   (ap (get_request (''/api/v1/analytics/employee/'' @ eid @ ''/finance'') []) = Inr d \<longrightarrow>
      financeAnalytics_queryFn ap eid = Inr d) \<and>
   (ap (get_request (''/api/v1/analytics/employee/'' @ eid @ ''/projects'') []) = Inr d \<longrightarrow>
      projectAnalytics_queryFn ap eid toISO t1 t2 t3 = Inr d) \<and>
   (ap (get_request (''/api/v1/analytics/employee/'' @ eid @ ''/leads'') []) = Inr d \<longrightarrow>
      leadAnalytics_queryFn ap eid = Inr d) \<and>
   taskAnalytics_queryFn ap eid toISO t1 t2 \<noteq> Inl e' \<and>
   financeAnalytics_queryFn ap eid \<noteq> Inl e' \<and>
   projectAnalytics_queryFn ap eid toISO t1 t2 t3 \<noteq> Inl e' \<and>
   leadAnalytics_queryFn ap eid \<noteq> Inl e' \<and>
   employee_queryFn ap eid = ap (get_request (''/api/v1/users/'' @ eid) []) \<and>
   Tasks_stats_queryFn ap = ap (get_request ''/api/v1/tasks/stats'' []) \<and>
   Tasks_tasks_queryFn ap statusFilter priorityFilter assigneeFilter =
     ap (get_request ''/api/v1/tasks/''
           (append_if ''status'' statusFilter @ append_if ''priority'' priorityFilter @
            append_if ''assigned_to_id'' assigneeFilter)) \<and>
   Tasks_employees_queryFn ap = ap (get_request ''/api/v1/tasks/employees/list'' [])"
  by (simp add: taskAnalytics_queryFn_def financeAnalytics_queryFn_def
      projectAnalytics_queryFn_def leadAnalytics_queryFn_def employee_queryFn_def
      Tasks_stats_queryFn_def Tasks_tasks_queryFn_def Tasks_employees_queryFn_def api_get_def
      with_fallback_Inl with_fallback_Inr with_fallback_never_rejects)

theorem analytics_queries_fall_back_witness:
  "failing_api (get_request (''/api/v1/analytics/employee/'' @ ''3'' @ ''/finance'') []) = Inl (HttpError 500) \<and>
   financeAnalytics_queryFn failing_api ''3'' = Inr financeAnalytics_mock \<and>
   leadAnalytics_queryFn failing_api ''3'' = Inr leadAnalytics_mock \<and>
   employee_queryFn failing_api ''3'' = Inl (HttpError 500)"
proof -
  have h: "\<And>r. failing_api r = Inl (HttpError 500)"
    by (simp add: failing_api_def)
  have "financeAnalytics_queryFn failing_api ''3'' = Inr financeAnalytics_mock \<and>
      leadAnalytics_queryFn failing_api ''3'' = Inr leadAnalytics_mock \<and>
      employee_queryFn failing_api ''3'' = failing_api (get_request (''/api/v1/users/'' @ ''3'') [])"
    using h analytics_queries_fall_back [of failing_api "''3''" "HttpError 500"] by blast
  then show ?thesis using h by simp
qed

text \<open>
  Claim C4, as stated, says every declaration of a task's status stays within the
  enumeration.  The shared \<open>Task\<close> type of \<open>types/index.ts\<close> admits \<open>pending\<close>.
\<close>

theorem shared_Task_type_counterexample:
  "''pending'' \<in> set types_index_Task_status \<and> ''pending'' \<notin> spec_task_statuses"
  by (simp add: types_index_Task_status_def spec_task_statuses_def)

text \<open>
  Claim C4, amended.  The \<open>Task\<close> interface of \<open>Tasks.tsx\<close> declares exactly the
  enumeration todo, in_progress, review, completed, blocked; the colour table and the status
  filter of the task pages range over exactly that set; the interface of \<open>ClientDetail\<close>
  declares a subset of it; every status a status button reads or writes belongs to it.  The
  shared \<open>Task\<close> type of \<open>types/index.ts\<close> declares pending, in_progress, completed,
  failed instead, and \<open>TaskManagement\<close> declares a plain string.
\<close>

theorem task_page_statuses_in_enumeration:
  "set Tasks_Task_status = spec_task_statuses \<and>
   set status_color_keys = spec_task_statuses \<and>
   set status_filter_options - {[]} = spec_task_statuses \<and>
   set ClientDetail_Task_status \<subseteq> spec_task_statuses \<and>
   (\<forall>b \<in> set (Tasks_status_buttons usr task) \<union> set (TaskManagement_status_buttons task).
      status task \<in> spec_task_statuses \<and> target b \<in> spec_task_statuses) \<and>
   set types_index_Task_status = {''pending'', ''in_progress'', ''completed'', ''failed''} \<and>
   set types_index_Task_status \<inter> spec_task_statuses = {''in_progress'', ''completed''} \<and>
   TaskManagement_Task_status s"
proof (intro conjI ballI)
  fix b
  assume "b \<in> set (Tasks_status_buttons usr task) \<union> set (TaskManagement_status_buttons task)"
  then have c: "(status task = ''todo'' \<and> target b = ''in_progress'') \<or>
       (status task = ''in_progress'' \<and> (target b = ''review'' \<or> target b = ''completed'')) \<or>
       (status task = ''review'' \<and> target b = ''completed'')"
    using Tasks_status_buttons_cases TaskManagement_status_buttons_cases by blast
  then show "status task \<in> spec_task_statuses"
    by (auto simp: spec_task_statuses_def)
  from c show "target b \<in> spec_task_statuses"
    by (auto simp: spec_task_statuses_def)
qed (auto simp: Tasks_Task_status_def status_color_keys_def status_filter_options_def
    ClientDetail_Task_status_def types_index_Task_status_def spec_task_statuses_def
    TaskManagement_Task_status_def)

theorem task_page_statuses_in_enumeration_witness:
  "Button ''Start'' ''in_progress'' \<in> set (TaskManagement_status_buttons (sample_task ''todo'')) \<and>
   ''in_progress'' \<in> spec_task_statuses \<and> ''todo'' \<in> spec_task_statuses"
proof -
  have m: "Button ''Start'' ''in_progress'' \<in> set (TaskManagement_status_buttons (sample_task ''todo''))"
    by (simp add: TaskManagement_status_buttons_def sample_task_def)
  then have "status (sample_task ''todo'') \<in> spec_task_statuses \<and>
      target (Button ''Start'' ''in_progress'') \<in> spec_task_statuses"
    using task_page_statuses_in_enumeration [of None "sample_task ''todo''"] by blast
  then show ?thesis using m by (simp add: sample_task_def)
qed



























end
